theory Spec2Isabelle
  imports Complex_Main "HOL-Library.Word"
begin

section \<open>JavaScript values\<close>

text \<open>
  The endpoint \<^verbatim>\<open>api/ocr-summarize.ts\<close> is one async function over values of the
  JavaScript runtime. A JavaScript string is a sequence of UTF-16 code units, a byte
  buffer a sequence of octets.
\<close>

type_synonym jsstring = "16 word list"

type_synonym bytes = "8 word list"

definition utf16 :: "string \<Rightarrow> jsstring" where
  \<comment> \<open>The code units of an ASCII literal of the source text.\<close>
  "utf16 s = map of_char s"

text \<open>
  A number is a double: only whether it is zero or NaN matters to the handler (its
  truthiness), so the finite ones are carried as reals.
\<close>

datatype jsnum = NaN | PosInfinity | NegInfinity | Finite real

datatype jsval =
    JUndefined
  | JNull
  | JBool bool
  | JNum jsnum
  | JStr jsstring
  | JArr "jsval list"
  | JObj "(jsstring \<times> jsval) list"

fun truthy :: "jsval \<Rightarrow> bool" where
  \<comment> \<open>ToBoolean, as used by \<^verbatim>\<open>||\<close>, \<^verbatim>\<open>&&\<close> and \<^verbatim>\<open>!\<close>.\<close>
  "truthy JUndefined = False"
| "truthy JNull = False"
| "truthy (JBool b) = b"
| "truthy (JNum NaN) = False"
| "truthy (JNum (Finite r)) = (r \<noteq> 0)"
| "truthy (JNum PosInfinity) = True"
| "truthy (JNum NegInfinity) = True"
| "truthy (JStr s) = (s \<noteq> [])"
| "truthy (JArr xs) = True"
| "truthy (JObj ps) = True"

fun nullish :: "jsval \<Rightarrow> bool" where
  \<comment> \<open>The test of \<^verbatim>\<open>?.\<close> and \<^verbatim>\<open>??\<close>.\<close>
  "nullish JUndefined = True"
| "nullish JNull = True"
| "nullish v = False"

fun get_prop :: "jsval \<Rightarrow> jsstring \<Rightarrow> jsval" where
  \<comment> \<open>Reading a property that no built-in prototype defines (\<^verbatim>\<open>fileURL\<close>, \<^verbatim>\<open>text\<close>):
      an object answers with its own property, every other value with \<^verbatim>\<open>undefined\<close>.
      On \<^verbatim>\<open>null\<close> and \<^verbatim>\<open>undefined\<close> the read would throw; the handler reads only
      behind \<^verbatim>\<open>&&\<close> and \<^verbatim>\<open>?.\<close>, which is where the guards below stand.\<close>
  "get_prop (JObj ps) k = (case map_of ps k of None \<Rightarrow> JUndefined | Some v \<Rightarrow> v)"
| "get_prop v k = JUndefined"

subsection \<open>Thrown faults\<close>

text \<open>
  What the collaborators throw are Error objects (node-fetch's FetchError and TypeError,
  the exceptions of the PDF library, the platform's ApiError for a body that is not
  valid JSON, the engine's TypeError): a name and a message, both strings.
\<close>

record js_error =
  name :: jsstring
  message :: jsstring

definition String_of_error :: "js_error \<Rightarrow> jsstring" where
  \<comment> \<open>\<^verbatim>\<open>String(err)\<close>, that is \<^verbatim>\<open>Error.prototype.toString\<close>.\<close>
  "String_of_error err =
     (if name err = [] then message err
      else if message err = [] then name err
      else name err @ utf16 '': '' @ message err)"

subsection \<open>String.prototype.trim\<close>

definition is_white_space :: "16 word \<Rightarrow> bool" where
  \<comment> \<open>WhiteSpace and LineTerminator of ECMAScript.\<close>
  "is_white_space c \<longleftrightarrow>
     c = 0x0009 \<or> c = 0x000A \<or> c = 0x000B \<or> c = 0x000C \<or> c = 0x000D \<or> c = 0x0020 \<or>
     c = 0x00A0 \<or> c = 0x1680 \<or> (0x2000 \<le> c \<and> c \<le> 0x200A) \<or> c = 0x2028 \<or>
     c = 0x2029 \<or> c = 0x202F \<or> c = 0x205F \<or> c = 0x3000 \<or> c = 0xFEFF"

definition trim :: "jsstring \<Rightarrow> jsstring" where
  "trim s = rev (dropWhile is_white_space (rev (dropWhile is_white_space s)))"

section \<open>The request, the response and the collaborators\<close>

text \<open>
  \<^verbatim>\<open>req.query\<close> maps a key to a string, or to an array of strings when the key is
  repeated. \<^verbatim>\<open>req.body\<close> is a getter of the platform: it parses the body on first
  access and throws when the body is announced as JSON and is not, so reading it is a
  step that can fail.
\<close>

datatype query_value = QString jsstring | QArray "jsstring list"

fun query_jsval :: "query_value option \<Rightarrow> jsval" where
  "query_jsval None = JUndefined"
| "query_jsval (Some (QString s)) = JStr s"
| "query_jsval (Some (QArray xs)) = JArr (map JStr xs)"

record request =
  req_method :: jsstring
  headers :: "jsstring \<rightharpoonup> jsstring"
  query :: "jsstring \<rightharpoonup> query_value"
  body :: "js_error + jsval"

text \<open>
  The response object of the platform: \<^verbatim>\<open>res.status(n)\<close> sets the status code and
  returns the object, \<^verbatim>\<open>res.json(v)\<close> sends \<^verbatim>\<open>v\<close> with the status code set so far.
\<close>

record vercel_response =
  statusCode :: nat
  sent :: "(nat \<times> jsval) list"

definition res_status :: "nat \<Rightarrow> vercel_response \<Rightarrow> vercel_response" where
  "res_status n res = res\<lparr>statusCode := n\<rparr>"

definition res_json :: "jsval \<Rightarrow> vercel_response \<Rightarrow> vercel_response" where
  "res_json v res = res\<lparr>sent := sent res @ [(statusCode res, v)]\<rparr>"

text \<open>
  What \<^verbatim>\<open>fetch\<close> resolves to: the \<^verbatim>\<open>ok\<close> flag, the HTTP status, and what
  \<^verbatim>\<open>arrayBuffer()\<close> gives when the body is read.
\<close>

record response =
  ok :: bool
  status :: nat
  arrayBuffer :: "js_error + bytes"

text \<open>
  The collaborators are parameters: \<^verbatim>\<open>fetch\<close> of node-fetch, \<^verbatim>\<open>pdfParse\<close> of
  pdf-parse, and the message the engine puts in the TypeError of a call to something
  that is not a function. Each either throws or returns.
\<close>

record env =
  fetch :: "jsval \<Rightarrow> js_error + response"
  pdfParse :: "bytes \<Rightarrow> js_error + jsval"
  not_a_function :: jsstring

datatype call = Fetch jsval | ArrayBuffer | PdfParse bytes

section \<open>The handler\<close>

definition fileURL_of :: "request \<Rightarrow> js_error + jsval" where
  \<comment> \<open>\<^verbatim>\<open>(req.query.fileURL as string) || (req.body && (req.body as any).fileURL)\<close>:
      the body is read only when the query gives a falsy value.\<close>
  "fileURL_of req =
     (let q = query_jsval (query req (utf16 ''fileURL''))
      in if truthy q then Inr q
         else (case body req of
                 Inl err \<Rightarrow> Inl err
               | Inr b \<Rightarrow> Inr (if truthy b then get_prop b (utf16 ''fileURL'') else b)))"

definition extractedText :: "env \<Rightarrow> jsval \<Rightarrow> js_error + jsstring" where
  \<comment> \<open>\<^verbatim>\<open>data?.text?.trim() ?? ""\<close>\<close>
  "extractedText e data =
     (let t = (if nullish data then JUndefined else get_prop data (utf16 ''text''))
      in if nullish t then Inr []
         else (case t of
                 JStr s \<Rightarrow> Inr (trim s)
               | _ \<Rightarrow> Inl \<lparr>name = utf16 ''TypeError'', message = not_a_function e\<rparr>))"

definition Buffer_from :: "bytes \<Rightarrow> bytes" where
  "Buffer_from ab = ab"

definition on_catch :: "js_error \<Rightarrow> vercel_response \<Rightarrow> vercel_response" where
  \<comment> \<open>The catch block: \<^verbatim>\<open>err.message || String(err)\<close>.\<close>
  "on_catch err res =
     res_json
       (JObj [(utf16 ''ok'', JBool False),
              (utf16 ''error'',
               JStr (if message err \<noteq> [] then message err else String_of_error err))])
       (res_status 500 res)"

definition handler :: "env \<Rightarrow> request \<Rightarrow> vercel_response \<Rightarrow> call list \<times> vercel_response" where
  \<comment> \<open>The result pairs the calls made to the collaborators, in order, with the response
      object after the function has returned.\<close>
  "handler e req res =
     (case fileURL_of req of
        Inl err \<Rightarrow> ([], on_catch err res)
      | Inr fileURL \<Rightarrow>
          if \<not> truthy fileURL then
            ([], res_json
                   (JObj [(utf16 ''ok'', JBool False),
                          (utf16 ''error'', JStr (utf16 ''Missing fileURL parameter''))])
                   (res_status 400 res))
          else
            (case fetch e fileURL of
               Inl err \<Rightarrow> ([Fetch fileURL], on_catch err res)
             | Inr response \<Rightarrow>
                 if \<not> ok response then
                   ([Fetch fileURL],
                    res_json
                      (JObj [(utf16 ''ok'', JBool False),
                             (utf16 ''error'',
                              JStr (utf16 ''Unable to fetch file from provided URL''))])
                      (res_status 400 res))
                 else
                   (case arrayBuffer response of
                      Inl err \<Rightarrow> ([Fetch fileURL, ArrayBuffer], on_catch err res)
                    | Inr ab \<Rightarrow>
                        (let buffer = Buffer_from ab
                         in case pdfParse e buffer of
                              Inl err \<Rightarrow>
                                ([Fetch fileURL, ArrayBuffer, PdfParse buffer], on_catch err res)
                            | Inr data \<Rightarrow>
                                (case extractedText e data of
                                   Inl err \<Rightarrow>
                                     ([Fetch fileURL, ArrayBuffer, PdfParse buffer],
                                      on_catch err res)
                                 | Inr text \<Rightarrow>
                                     ([Fetch fileURL, ArrayBuffer, PdfParse buffer],
                                      res_json
                                        (JObj [(utf16 ''ok'', JBool True),
                                               (utf16 ''text'', JStr text)])
                                        (res_status 200 res)))))))"

section \<open>Sample requests and collaborators\<close>

text \<open>
  Concrete requests, fetched responses, faults and collaborators, at which the properties
  below are evaluated.
\<close>

definition fresh_res :: vercel_response where
  "fresh_res = \<lparr>statusCode = 200, sent = []\<rparr>"

definition get_request :: "jsstring \<Rightarrow> request" where
  "get_request u =
     \<lparr>req_method = utf16 ''GET'', headers = Map.empty,
      query = [utf16 ''fileURL'' \<mapsto> QString u], body = Inr JUndefined\<rparr>"

definition post_request :: "jsval \<Rightarrow> request" where
  "post_request b =
     \<lparr>req_method = utf16 ''POST'',
      headers = [utf16 ''content-type'' \<mapsto> utf16 ''application/json''],
      query = Map.empty, body = Inr b\<rparr>"

definition serving :: "response \<Rightarrow> (js_error + jsval) \<Rightarrow> env" where
  "serving r parsed =
     \<lparr>fetch = (\<lambda>u. Inr r), pdfParse = (\<lambda>b. parsed),
      not_a_function = utf16 ''data.text.trim is not a function''\<rparr>"

definition unreachable :: "js_error \<Rightarrow> env" where
  "unreachable err =
     \<lparr>fetch = (\<lambda>u. Inl err), pdfParse = (\<lambda>b. Inr JUndefined),
      not_a_function = utf16 ''data.text.trim is not a function''\<rparr>"

definition pdf_response :: response where
  "pdf_response = \<lparr>ok = True, status = 200, arrayBuffer = Inr [0x25, 0x50, 0x44, 0x46]\<rparr>"

definition sample_url :: jsstring where
  "sample_url = utf16 ''https://example.com/sample.pdf''"

definition not_found_response :: response where
  "not_found_response = \<lparr>ok = False, status = 404, arrayBuffer = Inr []\<rparr>"

definition origin_error_response :: response where
  "origin_error_response = \<lparr>ok = False, status = 500, arrayBuffer = Inr []\<rparr>"

definition dns_failure :: js_error where
  "dns_failure =
     \<lparr>name = utf16 ''FetchError'', message = utf16 ''getaddrinfo ENOTFOUND nosuch.invalid''\<rparr>"

definition invalid_pdf :: js_error where
  "invalid_pdf =
     \<lparr>name = utf16 ''InvalidPDFException'', message = utf16 ''Invalid PDF structure''\<rparr>"

definition empty_query_request :: request where
  "empty_query_request =
     \<lparr>req_method = utf16 ''POST'',
      headers = [utf16 ''content-type'' \<mapsto> utf16 ''application/json''],
      query = [utf16 ''fileURL'' \<mapsto> QString []],
      body = Inr (JObj [(utf16 ''fileURL'', JStr sample_url)])\<rparr>"

definition tagged_request :: request where
  "tagged_request =
     \<lparr>req_method = utf16 ''POST'',
      headers = [utf16 ''x-trace'' \<mapsto> utf16 ''1''],
      query = [utf16 ''fileURL'' \<mapsto> QString sample_url],
      body = Inr JUndefined\<rparr>"

definition only_sample :: "response \<Rightarrow> (js_error + jsval) \<Rightarrow> env" where
  "only_sample r parsed =
     \<lparr>fetch = (\<lambda>u. if u = JStr sample_url then Inr r else Inl dns_failure),
      pdfParse = (\<lambda>b. parsed),
      not_a_function = utf16 ''data.text.trim is not a function''\<rparr>"

section \<open>Properties\<close>

subsection \<open>Sending, trimming and the branches of the handler\<close>

lemma send_eq:
  "res_json v (res_status n res) = res\<lparr>statusCode := n, sent := sent res @ [(n, v)]\<rparr>"
  by (simp add: res_json_def res_status_def)

lemma on_catch_eq:
  "on_catch err res =
     res\<lparr>statusCode := 500,
         sent := sent res @
           [(500, JObj [(utf16 ''ok'', JBool False),
                        (utf16 ''error'',
                         JStr (if message err \<noteq> [] then message err else String_of_error err))])]\<rparr>"
  by (simp add: on_catch_def send_eq)

lemma dropWhile_blank: "list_all P s \<Longrightarrow> dropWhile P s = []"
  by (induction s) simp_all

lemma trim_split:
  "s = takeWhile is_white_space s @ trim s @
       rev (takeWhile is_white_space (rev (dropWhile is_white_space s)))"
proof -
  let ?t = "dropWhile is_white_space s"
  have "?t = rev (takeWhile is_white_space (rev ?t) @ dropWhile is_white_space (rev ?t))"
    by (simp only: takeWhile_dropWhile_id rev_rev_ident)
  then have "?t = trim s @ rev (takeWhile is_white_space (rev ?t))"
    by (simp only: rev_append trim_def)
  moreover have "s = takeWhile is_white_space s @ ?t" by simp
  ultimately show ?thesis by metis
qed

lemma trim_last: "trim s \<noteq> [] \<Longrightarrow> \<not> is_white_space (last (trim s))"
  by (simp add: trim_def last_rev hd_dropWhile)

lemma trim_hd:
  assumes "trim s \<noteq> []" shows "\<not> is_white_space (hd (trim s))"
proof -
  let ?t = "dropWhile is_white_space s"
  have ne: "?t \<noteq> []"
  proof
    assume "?t = []"
    then have "trim s = []" unfolding trim_def by (simp only: rev.simps dropWhile.simps)
    with assms show False by simp
  qed
  have t: "?t = trim s @ rev (takeWhile is_white_space (rev ?t))"
    using trim_split[of s] by (metis same_append_eq takeWhile_dropWhile_id)
  have "hd ?t = hd (trim s)" using assms by (subst t) simp
  moreover have "\<not> is_white_space (hd ?t)" using ne by (rule hd_dropWhile)
  ultimately show ?thesis by simp
qed

lemma trim_blank: "list_all is_white_space s \<Longrightarrow> trim s = []"
  unfolding trim_def by (simp only: dropWhile_blank rev.simps dropWhile.simps)

lemma handler_success:
  assumes "fileURL_of req = Inr fileURL" and "truthy fileURL"
    and "fetch e fileURL = Inr r" and "ok r" and "arrayBuffer r = Inr ab"
    and "pdfParse e (Buffer_from ab) = Inr data" and "extractedText e data = Inr t"
  shows "handler e req res =
           ([Fetch fileURL, ArrayBuffer, PdfParse (Buffer_from ab)],
            res\<lparr>statusCode := 200,
                sent := sent res @
                  [(200, JObj [(utf16 ''ok'', JBool True), (utf16 ''text'', JStr t)])]\<rparr>)"
  using assms by (simp add: handler_def send_eq)

lemma handler_not_ok:
  assumes "fileURL_of req = Inr fileURL" and "truthy fileURL"
    and "fetch e fileURL = Inr r" and "\<not> ok r"
  shows "handler e req res =
           ([Fetch fileURL],
            res\<lparr>statusCode := 400,
                sent := sent res @
                  [(400, JObj [(utf16 ''ok'', JBool False),
                               (utf16 ''error'',
                                JStr (utf16 ''Unable to fetch file from provided URL''))])]\<rparr>)"
  using assms by (simp add: handler_def send_eq)

lemma handler_missing:
  assumes "fileURL_of req = Inr fileURL" and "\<not> truthy fileURL"
  shows "handler e req res =
           ([],
            res\<lparr>statusCode := 400,
                sent := sent res @
                  [(400, JObj [(utf16 ''ok'', JBool False),
                               (utf16 ''error'', JStr (utf16 ''Missing fileURL parameter''))])]\<rparr>)"
  using assms by (simp add: handler_def send_eq)

lemma handler_fetch_throws:
  assumes "fileURL_of req = Inr fileURL" and "truthy fileURL" and "fetch e fileURL = Inl err"
  shows "handler e req res = ([Fetch fileURL], on_catch err res)"
  using assms by (simp add: handler_def)

lemma extractedText_string:
  "get_prop data (utf16 ''text'') = JStr s \<Longrightarrow> extractedText e data = Inr (trim s)"
  by (cases data) (simp_all add: extractedText_def)

lemma extractedText_empty:
  "nullish data \<or> nullish (get_prop data (utf16 ''text'')) \<Longrightarrow> extractedText e data = Inr []"
  by (auto simp: extractedText_def)

lemma key_distinct:
  "utf16 ''ok'' \<noteq> utf16 ''text''" "utf16 ''ok'' \<noteq> utf16 ''error''"
  "utf16 ''text'' \<noteq> utf16 ''error''" "utf16 ''text'' \<noteq> utf16 ''ok''"
  "utf16 ''error'' \<noteq> utf16 ''ok''" "utf16 ''error'' \<noteq> utf16 ''text''"
  by (simp_all add: utf16_def)

subsection \<open>The success path\<close>

text \<open>
  Claim C1. When the fetch of the fileURL succeeds and the fetched bytes parse to a result
  whose text is a string, the handler answers once, with status 200 and the body
  \<^verbatim>\<open>{ok: true, text: t}\<close>, where \<open>t\<close> is that text without its leading and trailing
  white space: \<open>t\<close> is a slice of the text, what is cut off on either side is white
  space only, and \<open>t\<close> neither starts nor ends with white space.
\<close>

theorem C1_valid_pdf_trimmed_text:
  assumes "fileURL_of req = Inr fileURL" and "truthy fileURL"
    and "fetch e fileURL = Inr r" and "ok r" and "arrayBuffer r = Inr ab"
    and "pdfParse e (Buffer_from ab) = Inr data"
    and "get_prop data (utf16 ''text'') = JStr s"
  shows "handler e req res =
           ([Fetch fileURL, ArrayBuffer, PdfParse (Buffer_from ab)],
            res\<lparr>statusCode := 200,
                sent := sent res @
                  [(200, JObj [(utf16 ''ok'', JBool True), (utf16 ''text'', JStr (trim s))])]\<rparr>)
         \<and> (\<exists>pre suf. s = pre @ trim s @ suf
               \<and> list_all is_white_space pre \<and> list_all is_white_space suf)
         \<and> (trim s \<noteq> [] \<longrightarrow>
               \<not> is_white_space (hd (trim s)) \<and> \<not> is_white_space (last (trim s)))"
proof -
  have "extractedText e data = Inr (trim s)"
    using assms(7) by (rule extractedText_string)
  with assms have run: "handler e req res =
           ([Fetch fileURL, ArrayBuffer, PdfParse (Buffer_from ab)],
            res\<lparr>statusCode := 200,
                sent := sent res @
                  [(200, JObj [(utf16 ''ok'', JBool True), (utf16 ''text'', JStr (trim s))])]\<rparr>)"
    by (simp add: handler_success)
  have "list_all is_white_space (takeWhile is_white_space s)"
    by (simp add: list_all_iff) (meson set_takeWhileD)
  moreover have "list_all is_white_space
      (rev (takeWhile is_white_space (rev (dropWhile is_white_space s))))"
    by (simp add: list_all_iff) (meson set_takeWhileD)
  ultimately have slice: "\<exists>pre suf. s = pre @ trim s @ suf
               \<and> list_all is_white_space pre \<and> list_all is_white_space suf"
    using trim_split [of s] by blast
  from run slice trim_hd trim_last show ?thesis by blast
qed

theorem C1_valid_pdf_trimmed_text_witness:
  "handler (serving pdf_response (Inr (JObj [(utf16 ''text'', JStr (utf16 ''  Hello World ''))])))
     (get_request sample_url) fresh_res =
   ([Fetch (JStr sample_url), ArrayBuffer, PdfParse [0x25, 0x50, 0x44, 0x46]],
    \<lparr>statusCode = 200,
     sent = [(200, JObj [(utf16 ''ok'', JBool True),
                         (utf16 ''text'', JStr (utf16 ''Hello World''))])]\<rparr>)"
proof -
  let ?e = "serving pdf_response (Inr (JObj [(utf16 ''text'', JStr (utf16 ''  Hello World ''))]))"
  have 1: "fileURL_of (get_request sample_url) = Inr (JStr sample_url)"
    by (simp add: fileURL_of_def get_request_def sample_url_def utf16_def)
  have 2: "truthy (JStr sample_url)"
    by (simp add: sample_url_def utf16_def)
  have 3: "fetch ?e (JStr sample_url) = Inr pdf_response"
    by (simp add: serving_def)
  have 4: "ok pdf_response"
    by (simp add: pdf_response_def)
  have 5: "arrayBuffer pdf_response = Inr [0x25, 0x50, 0x44, 0x46]"
    by (simp add: pdf_response_def)
  have 6: "pdfParse ?e (Buffer_from [0x25, 0x50, 0x44, 0x46])
             = Inr (JObj [(utf16 ''text'', JStr (utf16 ''  Hello World ''))])"
    by (simp add: serving_def)
  have 7: "get_prop (JObj [(utf16 ''text'', JStr (utf16 ''  Hello World ''))]) (utf16 ''text'')
             = JStr (utf16 ''  Hello World '')"
    by simp
  have 8: "trim (utf16 ''  Hello World '') = utf16 ''Hello World''"
    by (simp add: trim_def utf16_def is_white_space_def)
  show ?thesis
    using C1_valid_pdf_trimmed_text [OF 1 2 3 4 5 6 7, of fresh_res] 8
    by (simp add: fresh_res_def Buffer_from_def)
qed

subsection \<open>Which location is used, and when it is missing\<close>

lemma fileURL_of_query:
  "truthy (query_jsval (query req (utf16 ''fileURL''))) \<Longrightarrow>
   fileURL_of req = Inr (query_jsval (query req (utf16 ''fileURL'')))"
  by (simp add: fileURL_of_def)

lemma fileURL_of_body:
  "\<not> truthy (query_jsval (query req (utf16 ''fileURL''))) \<Longrightarrow> body req = Inr b \<Longrightarrow>
   fileURL_of req = Inr (if truthy b then get_prop b (utf16 ''fileURL'') else b)"
  by (simp add: fileURL_of_def)

lemma nullish_not_truthy: "nullish v \<Longrightarrow> \<not> truthy v"
  by (cases v) simp_all

text \<open>
  Claim C2. When the query string has no fileURL parameter and the parsed request body
  is absent (\<^verbatim>\<open>null\<close> or \<^verbatim>\<open>undefined\<close>) or has no fileURL field, the handler answers
  with status 400 and the body \<^verbatim>\<open>{ok: false, error: "Missing fileURL parameter"}\<close>, and
  calls no collaborator: no fetch is attempted.
\<close>

theorem C2_missing_parameter:
  assumes "query req (utf16 ''fileURL'') = None"
    and "body req = Inr b"
    and "nullish b \<or> nullish (get_prop b (utf16 ''fileURL''))"
  shows "handler e req res =
           ([],
            res\<lparr>statusCode := 400,
                sent := sent res @
                  [(400, JObj [(utf16 ''ok'', JBool False),
                               (utf16 ''error'', JStr (utf16 ''Missing fileURL parameter''))])]\<rparr>)"
proof -
  have q: "\<not> truthy (query_jsval (query req (utf16 ''fileURL'')))"
    using assms(1) by simp
  let ?u = "if truthy b then get_prop b (utf16 ''fileURL'') else b"
  have "fileURL_of req = Inr ?u"
    using q assms(2) by (rule fileURL_of_body)
  moreover have "\<not> truthy ?u"
    using assms(3) by (auto dest: nullish_not_truthy)
  ultimately show ?thesis
    by (rule handler_missing)
qed

theorem C2_missing_parameter_witness:
  "handler (serving pdf_response (Inr JUndefined)) (post_request (JObj [])) fresh_res =
     ([], \<lparr>statusCode = 400,
           sent = [(400, JObj [(utf16 ''ok'', JBool False),
                               (utf16 ''error'', JStr (utf16 ''Missing fileURL parameter''))])]\<rparr>)"
proof -
  have 1: "query (post_request (JObj [])) (utf16 ''fileURL'') = None"
    by (simp add: post_request_def)
  have 2: "body (post_request (JObj [])) = Inr (JObj [])"
    by (simp add: post_request_def)
  have 3: "nullish (JObj []) \<or> nullish (get_prop (JObj []) (utf16 ''fileURL''))"
    by simp
  show ?thesis
    using C2_missing_parameter [OF 1 2 3, of "serving pdf_response (Inr JUndefined)" fresh_res]
    by (simp add: fresh_res_def)
qed

subsection \<open>Fetches that complete without success\<close>

text \<open>
  Claim C3. When the fetch of the fileURL completes with a response that is not ok, the
  handler answers with status 400 and the body
  \<^verbatim>\<open>{ok: false, error: "Unable to fetch file from provided URL"}\<close>, whatever the HTTP
  status of that response is, and the body of the fetched response is not read.
\<close>

theorem C3_fetch_not_ok:
  assumes "fileURL_of req = Inr fileURL" and "truthy fileURL"
    and "fetch e fileURL = Inr r" and "\<not> ok r"
  shows "handler e req res =
           ([Fetch fileURL],
            res\<lparr>statusCode := 400,
                sent := sent res @
                  [(400, JObj [(utf16 ''ok'', JBool False),
                               (utf16 ''error'',
                                JStr (utf16 ''Unable to fetch file from provided URL''))])]\<rparr>)"
  using assms by (rule handler_not_ok)

theorem C3_fetch_not_ok_witness:
  "handler (serving not_found_response (Inr JUndefined)) (get_request sample_url) fresh_res =
     ([Fetch (JStr sample_url)],
      \<lparr>statusCode = 400,
       sent = [(400, JObj [(utf16 ''ok'', JBool False),
                           (utf16 ''error'',
                            JStr (utf16 ''Unable to fetch file from provided URL''))])]\<rparr>)"
proof -
  let ?e = "serving not_found_response (Inr JUndefined)"
  have 1: "fileURL_of (get_request sample_url) = Inr (JStr sample_url)"
    by (simp add: fileURL_of_def get_request_def sample_url_def utf16_def)
  have 2: "truthy (JStr sample_url)"
    by (simp add: sample_url_def utf16_def)
  have 3: "fetch ?e (JStr sample_url) = Inr not_found_response"
    by (simp add: serving_def)
  have 4: "\<not> ok not_found_response"
    by (simp add: not_found_response_def)
  show ?thesis
    using C3_fetch_not_ok [OF 1 2 3 4, of fresh_res]
    by (simp add: fresh_res_def)
qed

subsection \<open>A parse without text\<close>

text \<open>
  Claim C6. When the fetch succeeds and the parse returns, but the result is
  \<^verbatim>\<open>null\<close> or \<^verbatim>\<open>undefined\<close>, has no text field, or has a text that is empty or all white
  space, the handler answers with status 200 and the body \<^verbatim>\<open>{ok: true, text: ""}\<close>.
\<close>

theorem C6_no_text_gives_empty_string:
  assumes "fileURL_of req = Inr fileURL" and "truthy fileURL"
    and "fetch e fileURL = Inr r" and "ok r" and "arrayBuffer r = Inr ab"
    and "pdfParse e (Buffer_from ab) = Inr data"
    and "nullish data \<or> nullish (get_prop data (utf16 ''text''))
         \<or> (\<exists>s. get_prop data (utf16 ''text'') = JStr s \<and> list_all is_white_space s)"
  shows "handler e req res =
           ([Fetch fileURL, ArrayBuffer, PdfParse (Buffer_from ab)],
            res\<lparr>statusCode := 200,
                sent := sent res @
                  [(200, JObj [(utf16 ''ok'', JBool True), (utf16 ''text'', JStr [])])]\<rparr>)"
proof -
  have "extractedText e data = Inr []"
  proof (cases "nullish data \<or> nullish (get_prop data (utf16 ''text''))")
    case True
    then show ?thesis by (rule extractedText_empty)
  next
    case False
    with assms(7) obtain s
      where s: "get_prop data (utf16 ''text'') = JStr s" and blank: "list_all is_white_space s"
      by blast
    from s have "extractedText e data = Inr (trim s)" by (rule extractedText_string)
    with blank show ?thesis by (simp add: trim_blank)
  qed
  with assms(1-6) show ?thesis by (rule handler_success)
qed

theorem C6_no_text_gives_empty_string_witness:
  "handler (serving pdf_response (Inr (JObj []))) (get_request sample_url) fresh_res =
     ([Fetch (JStr sample_url), ArrayBuffer, PdfParse [0x25, 0x50, 0x44, 0x46]],
      \<lparr>statusCode = 200,
       sent = [(200, JObj [(utf16 ''ok'', JBool True), (utf16 ''text'', JStr [])])]\<rparr>)"
proof -
  let ?e = "serving pdf_response (Inr (JObj []))"
  have 1: "fileURL_of (get_request sample_url) = Inr (JStr sample_url)"
    by (simp add: fileURL_of_def get_request_def sample_url_def utf16_def)
  have 2: "truthy (JStr sample_url)"
    by (simp add: sample_url_def utf16_def)
  have 3: "fetch ?e (JStr sample_url) = Inr pdf_response"
    by (simp add: serving_def)
  have 4: "ok pdf_response"
    by (simp add: pdf_response_def)
  have 5: "arrayBuffer pdf_response = Inr [0x25, 0x50, 0x44, 0x46]"
    by (simp add: pdf_response_def)
  have 6: "pdfParse ?e (Buffer_from [0x25, 0x50, 0x44, 0x46]) = Inr (JObj [])"
    by (simp add: serving_def)
  have 7: "nullish (JObj []) \<or> nullish (get_prop (JObj []) (utf16 ''text''))
         \<or> (\<exists>s. get_prop (JObj []) (utf16 ''text'') = JStr s \<and> list_all is_white_space s)"
    by simp
  show ?thesis
    using C6_no_text_gives_empty_string [OF 1 2 3 4 5 6 7, of fresh_res]
    by (simp add: fresh_res_def Buffer_from_def)
qed

subsection \<open>The empty string as a parameter\<close>

text \<open>
  Claim C10. When the fileURL parameter is present but is the empty string in each source
  that supplies it (in the query with the body supplying none or the empty string, or in
  the body alone), the handler treats it as missing: status 400, the body
  \<^verbatim>\<open>{ok: false, error: "Missing fileURL parameter"}\<close>, and no fetch.
\<close>

theorem C10_empty_parameter_is_missing:
  assumes "body req = Inr b"
    and "(query req (utf16 ''fileURL'') = Some (QString [])
            \<and> (nullish b \<or> get_prop b (utf16 ''fileURL'') = JUndefined
                 \<or> get_prop b (utf16 ''fileURL'') = JStr []))
         \<or> (query req (utf16 ''fileURL'') = None \<and> get_prop b (utf16 ''fileURL'') = JStr [])"
  shows "handler e req res =
           ([],
            res\<lparr>statusCode := 400,
                sent := sent res @
                  [(400, JObj [(utf16 ''ok'', JBool False),
                               (utf16 ''error'', JStr (utf16 ''Missing fileURL parameter''))])]\<rparr>)"
proof -
  have q: "\<not> truthy (query_jsval (query req (utf16 ''fileURL'')))"
    using assms(2) by auto
  let ?u = "if truthy b then get_prop b (utf16 ''fileURL'') else b"
  have "fileURL_of req = Inr ?u"
    using q assms(1) by (rule fileURL_of_body)
  moreover have "\<not> truthy ?u"
    using assms(2) by (auto dest: nullish_not_truthy)
  ultimately show ?thesis
    by (rule handler_missing)
qed

theorem C10_empty_parameter_is_missing_witness:
  "handler (serving pdf_response (Inr JUndefined))
     ((get_request [])\<lparr>body := Inr (JObj [(utf16 ''fileURL'', JStr [])])\<rparr>) fresh_res =
     ([], \<lparr>statusCode = 400,
           sent = [(400, JObj [(utf16 ''ok'', JBool False),
                               (utf16 ''error'', JStr (utf16 ''Missing fileURL parameter''))])]\<rparr>)"
proof -
  let ?b = "JObj [(utf16 ''fileURL'', JStr [])]"
  let ?req = "(get_request [])\<lparr>body := Inr ?b\<rparr>"
  have 1: "body ?req = Inr ?b"
    by simp
  have 2: "(query ?req (utf16 ''fileURL'') = Some (QString [])
            \<and> (nullish ?b \<or> get_prop ?b (utf16 ''fileURL'') = JUndefined
                 \<or> get_prop ?b (utf16 ''fileURL'') = JStr []))
         \<or> (query ?req (utf16 ''fileURL'') = None \<and> get_prop ?b (utf16 ''fileURL'') = JStr [])"
    by (simp add: get_request_def)
  show ?thesis
    using C10_empty_parameter_is_missing
            [OF 1 2, of "serving pdf_response (Inr JUndefined)" fresh_res]
    by (simp add: fresh_res_def)
qed

subsection \<open>Thrown faults\<close>

lemma handler_buffer_throws:
  assumes "fileURL_of req = Inr fileURL" and "truthy fileURL"
    and "fetch e fileURL = Inr r" and "ok r" and "arrayBuffer r = Inl err"
  shows "handler e req res = ([Fetch fileURL, ArrayBuffer], on_catch err res)"
  using assms by (simp add: handler_def)

lemma handler_parse_throws:
  assumes "fileURL_of req = Inr fileURL" and "truthy fileURL"
    and "fetch e fileURL = Inr r" and "ok r" and "arrayBuffer r = Inr ab"
    and "pdfParse e (Buffer_from ab) = Inl err"
  shows "handler e req res =
           ([Fetch fileURL, ArrayBuffer, PdfParse (Buffer_from ab)], on_catch err res)"
  using assms by (simp add: handler_def)

lemma handler_trim_throws:
  assumes "fileURL_of req = Inr fileURL" and "truthy fileURL"
    and "fetch e fileURL = Inr r" and "ok r" and "arrayBuffer r = Inr ab"
    and "pdfParse e (Buffer_from ab) = Inr data" and "extractedText e data = Inl err"
  shows "handler e req res =
           ([Fetch fileURL, ArrayBuffer, PdfParse (Buffer_from ab)], on_catch err res)"
  using assms by (simp add: handler_def)

lemma handler_body_throws:
  assumes "fileURL_of req = Inl err"
  shows "handler e req res = ([], on_catch err res)"
  using assms by (simp add: handler_def)

lemma sample_selected: "fileURL_of (get_request sample_url) = Inr (JStr sample_url)"
  by (simp add: fileURL_of_def get_request_def sample_url_def utf16_def)

lemma sample_truthy: "truthy (JStr sample_url)"
  by (simp add: sample_url_def utf16_def)

text \<open>
  Claim C4 says that a network-level failure of the fetch, such as a DNS resolution
  error, is answered with status 400 and the fixed message as well. Such a failure makes
  \<^verbatim>\<open>fetch\<close> throw, and the catch block answers it: status 500 and the fault's message.
\<close>

theorem C4_thrown_fetch_counterexample:
  "fetch (unreachable dns_failure) (JStr sample_url) = Inl dns_failure
   \<and> snd (handler (unreachable dns_failure) (get_request sample_url) fresh_res) =
       \<lparr>statusCode = 500,
        sent = [(500, JObj [(utf16 ''ok'', JBool False),
                            (utf16 ''error'',
                             JStr (utf16 ''getaddrinfo ENOTFOUND nosuch.invalid''))])]\<rparr>
   \<and> fst (last (sent (snd (handler (unreachable dns_failure) (get_request sample_url)
                               fresh_res)))) \<noteq> 400"
proof -
  have f: "fetch (unreachable dns_failure) (JStr sample_url) = Inl dns_failure"
    by (simp add: unreachable_def)
  have "handler (unreachable dns_failure) (get_request sample_url) fresh_res =
          ([Fetch (JStr sample_url)], on_catch dns_failure fresh_res)"
    using sample_selected sample_truthy f by (rule handler_fetch_throws)
  moreover have "message dns_failure \<noteq> []"
    by (simp add: dns_failure_def utf16_def)
  ultimately show ?thesis
    using f by (simp add: on_catch_eq fresh_res_def dns_failure_def)
qed

text \<open>
  Claim C4, as the code has it. Every fetch that completes with a non-success HTTP status
  gets status 400 and the one fixed message, with no distinction between 404,
  500-from-origin or any other such status: two such runs send the same response. A fetch
  that throws (a network-level failure) gets status 500 with the fault's message.
\<close>

theorem C4_http_failures_share_one_answer:
  "(fileURL_of req1 = Inr u1 \<and> truthy u1 \<and> fetch e1 u1 = Inr r1 \<and> \<not> ok r1
      \<and> fileURL_of req2 = Inr u2 \<and> truthy u2 \<and> fetch e2 u2 = Inr r2 \<and> \<not> ok r2
    \<longrightarrow> snd (handler e1 req1 res) = snd (handler e2 req2 res)
        \<and> snd (handler e1 req1 res) =
            res\<lparr>statusCode := 400,
                sent := sent res @
                  [(400, JObj [(utf16 ''ok'', JBool False),
                               (utf16 ''error'',
                                JStr (utf16 ''Unable to fetch file from provided URL''))])]\<rparr>)
   \<and> (fileURL_of req = Inr u \<and> truthy u \<and> fetch e u = Inl err
    \<longrightarrow> snd (handler e req res) =
            res\<lparr>statusCode := 500,
                sent := sent res @
                  [(500, JObj [(utf16 ''ok'', JBool False),
                               (utf16 ''error'',
                                JStr (if message err \<noteq> [] then message err
                                      else String_of_error err))])]\<rparr>)"
  by (simp add: handler_not_ok handler_fetch_throws on_catch_eq)

theorem C4_http_failures_share_one_answer_witness:
  "snd (handler (serving not_found_response (Inr JUndefined)) (get_request sample_url) fresh_res)
     = snd (handler (serving origin_error_response (Inr JUndefined)) (get_request sample_url)
              fresh_res)
   \<and> snd (handler (serving not_found_response (Inr JUndefined)) (get_request sample_url) fresh_res)
     = \<lparr>statusCode = 400,
        sent = [(400, JObj [(utf16 ''ok'', JBool False),
                            (utf16 ''error'',
                             JStr (utf16 ''Unable to fetch file from provided URL''))])]\<rparr>
   \<and> snd (handler (unreachable dns_failure) (get_request sample_url) fresh_res)
     = \<lparr>statusCode = 500,
        sent = [(500, JObj [(utf16 ''ok'', JBool False),
                            (utf16 ''error'',
                             JStr (utf16 ''getaddrinfo ENOTFOUND nosuch.invalid''))])]\<rparr>"
proof -
  have 1: "fetch (serving not_found_response (Inr JUndefined)) (JStr sample_url)
             = Inr not_found_response \<and> \<not> ok not_found_response"
    by (simp add: serving_def not_found_response_def)
  have 2: "fetch (serving origin_error_response (Inr JUndefined)) (JStr sample_url)
             = Inr origin_error_response \<and> \<not> ok origin_error_response"
    by (simp add: serving_def origin_error_response_def)
  have 3: "fetch (unreachable dns_failure) (JStr sample_url) = Inl dns_failure"
    by (simp add: unreachable_def)
  have 4: "message dns_failure = utf16 ''getaddrinfo ENOTFOUND nosuch.invalid''"
    by (simp add: dns_failure_def)
  have 5: "utf16 ''getaddrinfo ENOTFOUND nosuch.invalid'' \<noteq> []"
    by (simp add: utf16_def)
  show ?thesis
    using C4_http_failures_share_one_answer
            [of "get_request sample_url" "JStr sample_url"
                "serving not_found_response (Inr JUndefined)" not_found_response
                "get_request sample_url" "JStr sample_url"
                "serving origin_error_response (Inr JUndefined)" origin_error_response
                fresh_res
                "get_request sample_url" "JStr sample_url" "unreachable dns_failure" dns_failure]
          sample_selected sample_truthy 1 2 3
    by (auto simp: fresh_res_def 4 5)
qed

text \<open>
  Claim C5. When a step throws (reading the request body, the fetch, the buffering of the
  fetched body, the PDF parse, or the call of \<^verbatim>\<open>trim\<close> on a text that is not a string)
  the handler answers with status 500 and the body \<^verbatim>\<open>{ok: false, error: m}\<close>, where
  \<open>m\<close> is the fault's message when it has one, and otherwise the stringification of the
  fault, which is then its name.
\<close>

theorem C5_thrown_fault_gives_500:
  assumes "fileURL_of req = Inl err
     \<or> (\<exists>fileURL. fileURL_of req = Inr fileURL \<and> truthy fileURL
          \<and> (fetch e fileURL = Inl err
             \<or> (\<exists>r. fetch e fileURL = Inr r \<and> ok r
                   \<and> (arrayBuffer r = Inl err
                      \<or> (\<exists>ab. arrayBuffer r = Inr ab
                            \<and> (pdfParse e (Buffer_from ab) = Inl err
                               \<or> (\<exists>data. pdfParse e (Buffer_from ab) = Inr data
                                     \<and> extractedText e data = Inl err)))))))"
  shows "\<exists>m. snd (handler e req res) =
                res\<lparr>statusCode := 500,
                    sent := sent res @
                      [(500, JObj [(utf16 ''ok'', JBool False), (utf16 ''error'', JStr m)])]\<rparr>
             \<and> (message err \<noteq> [] \<longrightarrow> m = message err)
             \<and> (message err = [] \<longrightarrow> m = String_of_error err \<and> m = name err)"
proof -
  have "snd (handler e req res) = on_catch err res"
    using assms
    by (auto simp: handler_body_throws handler_fetch_throws handler_buffer_throws
                   handler_parse_throws handler_trim_throws)
  moreover have "message err = [] \<Longrightarrow> String_of_error err = name err"
    by (simp add: String_of_error_def)
  ultimately show ?thesis
    by (simp add: on_catch_eq)
qed

theorem C5_thrown_fault_gives_500_witness:
  "snd (handler (serving pdf_response (Inl invalid_pdf)) (get_request sample_url) fresh_res) =
     \<lparr>statusCode = 500,
      sent = [(500, JObj [(utf16 ''ok'', JBool False),
                          (utf16 ''error'', JStr (utf16 ''Invalid PDF structure''))])]\<rparr>"
proof -
  let ?e = "serving pdf_response (Inl invalid_pdf)"
  have "fetch ?e (JStr sample_url) = Inr pdf_response" and "ok pdf_response"
    and "arrayBuffer pdf_response = Inr [0x25, 0x50, 0x44, 0x46]"
    and "pdfParse ?e (Buffer_from [0x25, 0x50, 0x44, 0x46]) = Inl invalid_pdf"
    by (simp_all add: serving_def pdf_response_def)
  with sample_selected sample_truthy
  have h: "fileURL_of (get_request sample_url) = Inl invalid_pdf
     \<or> (\<exists>fileURL. fileURL_of (get_request sample_url) = Inr fileURL \<and> truthy fileURL
          \<and> (fetch ?e fileURL = Inl invalid_pdf
             \<or> (\<exists>r. fetch ?e fileURL = Inr r \<and> ok r
                   \<and> (arrayBuffer r = Inl invalid_pdf
                      \<or> (\<exists>ab. arrayBuffer r = Inr ab
                            \<and> (pdfParse ?e (Buffer_from ab) = Inl invalid_pdf
                               \<or> (\<exists>data. pdfParse ?e (Buffer_from ab) = Inr data
                                     \<and> extractedText ?e data = Inl invalid_pdf)))))))"
    by blast
  have m: "message invalid_pdf = utf16 ''Invalid PDF structure''"
    by (simp add: invalid_pdf_def)
  have ne: "utf16 ''Invalid PDF structure'' \<noteq> []"
    by (simp add: utf16_def)
  show ?thesis
    using C5_thrown_fault_gives_500 [OF h, of fresh_res]
    by (auto simp: fresh_res_def m ne)
qed

subsection \<open>Query before body\<close>

text \<open>
  Claim C7 says that the query parameter's value is used whenever the query parameter is
  present. The two sources are joined by \<^verbatim>\<open>||\<close>: a query parameter that is present and
  is the empty string is falsy, and the handler goes on to the body and fetches the
  body's fileURL.
\<close>

theorem C7_empty_query_counterexample:
  "query empty_query_request (utf16 ''fileURL'') = Some (QString [])
   \<and> fileURL_of empty_query_request = Inr (JStr sample_url)
   \<and> fileURL_of empty_query_request
       \<noteq> Inr (query_jsval (query empty_query_request (utf16 ''fileURL'')))
   \<and> fst (handler (serving pdf_response (Inr JUndefined)) empty_query_request fresh_res)
       = [Fetch (JStr sample_url), ArrayBuffer, PdfParse [0x25, 0x50, 0x44, 0x46]]"
proof -
  have q: "query empty_query_request (utf16 ''fileURL'') = Some (QString [])"
    by (simp add: empty_query_request_def)
  have b: "body empty_query_request = Inr (JObj [(utf16 ''fileURL'', JStr sample_url)])"
    by (simp add: empty_query_request_def)
  have sel: "fileURL_of empty_query_request = Inr (JStr sample_url)"
    by (simp add: fileURL_of_def q b)
  have ne: "JStr sample_url \<noteq> JStr []"
    by (simp add: sample_url_def utf16_def)
  have "handler (serving pdf_response (Inr JUndefined)) empty_query_request fresh_res
          = ([Fetch (JStr sample_url), ArrayBuffer, PdfParse (Buffer_from [0x25, 0x50, 0x44, 0x46])],
             fresh_res\<lparr>statusCode := 200,
                sent := sent fresh_res @
                  [(200, JObj [(utf16 ''ok'', JBool True), (utf16 ''text'', JStr [])])]\<rparr>)"
  proof (rule handler_success [OF sel sample_truthy])
    show "fetch (serving pdf_response (Inr JUndefined)) (JStr sample_url) = Inr pdf_response"
      by (simp add: serving_def)
    show "ok pdf_response"
      by (simp add: pdf_response_def)
    show "arrayBuffer pdf_response = Inr [0x25, 0x50, 0x44, 0x46]"
      by (simp add: pdf_response_def)
    show "pdfParse (serving pdf_response (Inr JUndefined)) (Buffer_from [0x25, 0x50, 0x44, 0x46])
            = Inr JUndefined"
      by (simp add: serving_def)
    show "extractedText (serving pdf_response (Inr JUndefined)) JUndefined = Inr []"
      by (simp add: extractedText_def)
  qed
  then show ?thesis
    using q sel ne by (simp add: Buffer_from_def)
qed

text \<open>
  Claim C7, as the code has it. The value the handler uses, and fetches first, is the
  query parameter's value whenever the query parameter is present and is not the empty
  string, whatever the body holds; when the query parameter is absent or is the empty
  string, it is the fileURL field of the parsed request body.
\<close>

theorem C7_query_first_unless_empty:
  "(\<forall>v. query req (utf16 ''fileURL'') = Some v \<and> v \<noteq> QString []
        \<longrightarrow> fileURL_of req = Inr (query_jsval (Some v))
            \<and> hd (fst (handler e req res)) = Fetch (query_jsval (Some v)))
   \<and> (\<forall>b. (query req (utf16 ''fileURL'') = None \<or> query req (utf16 ''fileURL'') = Some (QString []))
          \<and> body req = Inr b \<and> truthy b
        \<longrightarrow> fileURL_of req = Inr (get_prop b (utf16 ''fileURL''))
            \<and> (truthy (get_prop b (utf16 ''fileURL''))
                 \<longrightarrow> hd (fst (handler e req res)) = Fetch (get_prop b (utf16 ''fileURL''))))"
proof -
  have first: "hd (fst (handler e req res)) = Fetch u"
    if "fileURL_of req = Inr u" and "truthy u" for u
    using that by (simp add: handler_def Let_def split: sum.splits)
  have present: "truthy (query_jsval (Some v))" if "v \<noteq> QString []" for v
    using that by (cases v) simp_all
  show ?thesis
  proof (intro conjI allI impI)
    fix v
    assume h: "query req (utf16 ''fileURL'') = Some v \<and> v \<noteq> QString []"
    then have t: "truthy (query_jsval (query req (utf16 ''fileURL'')))"
      using present by simp
    from fileURL_of_query [OF t] h
    show sel: "fileURL_of req = Inr (query_jsval (Some v))" by simp
    from first [OF sel] h present
    show "hd (fst (handler e req res)) = Fetch (query_jsval (Some v))" by simp
  next
    fix b
    assume h: "(query req (utf16 ''fileURL'') = None
                 \<or> query req (utf16 ''fileURL'') = Some (QString []))
               \<and> body req = Inr b \<and> truthy b"
    then have f: "\<not> truthy (query_jsval (query req (utf16 ''fileURL'')))"
      by auto
    from h have b: "body req = Inr b" by simp
    from fileURL_of_body [OF f b] h
    show sel: "fileURL_of req = Inr (get_prop b (utf16 ''fileURL''))" by simp
    assume "truthy (get_prop b (utf16 ''fileURL''))"
    with first [OF sel]
    show "hd (fst (handler e req res)) = Fetch (get_prop b (utf16 ''fileURL''))" by simp
  qed
qed

theorem C7_query_first_unless_empty_witness:
  "fileURL_of (get_request sample_url) = Inr (JStr sample_url)
   \<and> hd (fst (handler (serving pdf_response (Inr JUndefined)) (get_request sample_url) fresh_res))
       = Fetch (JStr sample_url)
   \<and> fileURL_of empty_query_request = Inr (JStr sample_url)
   \<and> hd (fst (handler (serving pdf_response (Inr JUndefined)) empty_query_request fresh_res))
       = Fetch (JStr sample_url)"
proof -
  let ?e = "serving pdf_response (Inr JUndefined)"
  let ?b = "JObj [(utf16 ''fileURL'', JStr sample_url)]"
  have 1: "query (get_request sample_url) (utf16 ''fileURL'') = Some (QString sample_url)
           \<and> QString sample_url \<noteq> QString []"
    by (simp add: get_request_def sample_url_def utf16_def)
  have 2: "(query empty_query_request (utf16 ''fileURL'') = None
             \<or> query empty_query_request (utf16 ''fileURL'') = Some (QString []))
           \<and> body empty_query_request = Inr ?b \<and> truthy ?b"
    by (simp add: empty_query_request_def)
  have 3: "get_prop ?b (utf16 ''fileURL'') = JStr sample_url"
    by simp
  from C7_query_first_unless_empty [of "get_request sample_url" ?e fresh_res]
  have a: "\<forall>v. query (get_request sample_url) (utf16 ''fileURL'') = Some v \<and> v \<noteq> QString []
        \<longrightarrow> fileURL_of (get_request sample_url) = Inr (query_jsval (Some v))
            \<and> hd (fst (handler ?e (get_request sample_url) fresh_res)) = Fetch (query_jsval (Some v))"
    by (rule conjunct1)
  from C7_query_first_unless_empty [of empty_query_request ?e fresh_res]
  have b: "\<forall>b. (query empty_query_request (utf16 ''fileURL'') = None
              \<or> query empty_query_request (utf16 ''fileURL'') = Some (QString []))
          \<and> body empty_query_request = Inr b \<and> truthy b
        \<longrightarrow> fileURL_of empty_query_request = Inr (get_prop b (utf16 ''fileURL''))
            \<and> (truthy (get_prop b (utf16 ''fileURL''))
                 \<longrightarrow> hd (fst (handler ?e empty_query_request fresh_res))
                       = Fetch (get_prop b (utf16 ''fileURL'')))"
    by (rule conjunct2)
  from a 1 have a': "fileURL_of (get_request sample_url) = Inr (query_jsval (Some (QString sample_url)))
            \<and> hd (fst (handler ?e (get_request sample_url) fresh_res))
                = Fetch (query_jsval (Some (QString sample_url)))"
    by blast
  from b 2 have b': "fileURL_of empty_query_request = Inr (get_prop ?b (utf16 ''fileURL''))
            \<and> (truthy (get_prop ?b (utf16 ''fileURL''))
                 \<longrightarrow> hd (fst (handler ?e empty_query_request fresh_res))
                       = Fetch (get_prop ?b (utf16 ''fileURL'')))"
    by blast
  from a' b' sample_truthy show ?thesis
    by (simp add: 3)
qed

subsection \<open>One response, of three shapes\<close>

lemma handler_shapes:
  "(\<exists>t. snd (handler e req res) =
          res\<lparr>statusCode := 200,
              sent := sent res @
                [(200, JObj [(utf16 ''ok'', JBool True), (utf16 ''text'', JStr t)])]\<rparr>)
   \<or> (\<exists>m. snd (handler e req res) =
          res\<lparr>statusCode := 400,
              sent := sent res @
                [(400, JObj [(utf16 ''ok'', JBool False), (utf16 ''error'', JStr m)])]\<rparr>)
   \<or> (\<exists>m. snd (handler e req res) =
          res\<lparr>statusCode := 500,
              sent := sent res @
                [(500, JObj [(utf16 ''ok'', JBool False), (utf16 ''error'', JStr m)])]\<rparr>)"
proof -
  define shaped where "shaped x \<longleftrightarrow>
    (\<exists>t. x = res\<lparr>statusCode := 200,
              sent := sent res @
                [(200, JObj [(utf16 ''ok'', JBool True), (utf16 ''text'', JStr t)])]\<rparr>)
    \<or> (\<exists>m. x = res\<lparr>statusCode := 400,
              sent := sent res @
                [(400, JObj [(utf16 ''ok'', JBool False), (utf16 ''error'', JStr m)])]\<rparr>)
    \<or> (\<exists>m. x = res\<lparr>statusCode := 500,
              sent := sent res @
                [(500, JObj [(utf16 ''ok'', JBool False), (utf16 ''error'', JStr m)])]\<rparr>)"
    for x
  have caught: "shaped (on_catch err res)" for err
    unfolding shaped_def using on_catch_eq [of err res] by blast
  have refused: "shaped (res_json (JObj [(utf16 ''ok'', JBool False), (utf16 ''error'', JStr m)])
                          (res_status 400 res))" for m
    unfolding shaped_def send_eq by blast
  have answered: "shaped (res_json (JObj [(utf16 ''ok'', JBool True), (utf16 ''text'', JStr t)])
                       (res_status 200 res))" for t
    unfolding shaped_def send_eq by blast
  have "shaped (snd (handler e req res))"
    by (simp add: handler_def Let_def caught refused answered split: sum.splits)
  then show ?thesis
    unfolding shaped_def .
qed

text \<open>
  Claim C8. Every invocation of the handler, whose collaborators each throw or return,
  ends having sent exactly one JSON response, of one of three shapes: status 200 with
  \<^verbatim>\<open>{ok: true, text: string}\<close>, status 400 with \<^verbatim>\<open>{ok: false, error: string}\<close>, or
  status 500 with \<^verbatim>\<open>{ok: false, error: string}\<close>. The ok flag is true exactly when
  the status is 200, and no response has both a text and an error field.
\<close>

theorem C8_exactly_one_response:
  "\<exists>st b. snd (handler e req res) = res\<lparr>statusCode := st, sent := sent res @ [(st, b)]\<rparr>
     \<and> ((st = 200 \<and> (\<exists>t. b = JObj [(utf16 ''ok'', JBool True), (utf16 ''text'', JStr t)]))
        \<or> (st = 400 \<and> (\<exists>m. b = JObj [(utf16 ''ok'', JBool False), (utf16 ''error'', JStr m)]))
        \<or> (st = 500 \<and> (\<exists>m. b = JObj [(utf16 ''ok'', JBool False), (utf16 ''error'', JStr m)])))
     \<and> (get_prop b (utf16 ''ok'') = JBool True \<longleftrightarrow> st = 200)
     \<and> (get_prop b (utf16 ''text'') = JUndefined \<or> get_prop b (utf16 ''error'') = JUndefined)"
proof -
  consider
    (ok) t where "snd (handler e req res) =
          res\<lparr>statusCode := 200,
              sent := sent res @
                [(200, JObj [(utf16 ''ok'', JBool True), (utf16 ''text'', JStr t)])]\<rparr>"
  | (client) m where "snd (handler e req res) =
          res\<lparr>statusCode := 400,
              sent := sent res @
                [(400, JObj [(utf16 ''ok'', JBool False), (utf16 ''error'', JStr m)])]\<rparr>"
  | (server) m where "snd (handler e req res) =
          res\<lparr>statusCode := 500,
              sent := sent res @
                [(500, JObj [(utf16 ''ok'', JBool False), (utf16 ''error'', JStr m)])]\<rparr>"
    using handler_shapes [of e req res] by blast
  then show ?thesis
  proof cases
    case ok
    show ?thesis
      apply (rule exI [of _ 200])
      apply (rule exI [of _ "JObj [(utf16 ''ok'', JBool True), (utf16 ''text'', JStr t)]"])
      apply (simp add: ok key_distinct)
      done
  next
    case client
    show ?thesis
      apply (rule exI [of _ 400])
      apply (rule exI [of _ "JObj [(utf16 ''ok'', JBool False), (utf16 ''error'', JStr m)]"])
      apply (simp add: client key_distinct)
      done
  next
    case server
    show ?thesis
      apply (rule exI [of _ 500])
      apply (rule exI [of _ "JObj [(utf16 ''ok'', JBool False), (utf16 ''error'', JStr m)]"])
      apply (simp add: server key_distinct)
      done
  qed
qed

theorem C8_exactly_one_response_witness:
  "\<exists>st b. snd (handler (unreachable dns_failure) (get_request sample_url) fresh_res)
            = \<lparr>statusCode = st, sent = [(st, b)]\<rparr>
     \<and> ((st = 200 \<and> (\<exists>t. b = JObj [(utf16 ''ok'', JBool True), (utf16 ''text'', JStr t)]))
        \<or> (st = 400 \<and> (\<exists>m. b = JObj [(utf16 ''ok'', JBool False), (utf16 ''error'', JStr m)]))
        \<or> (st = 500 \<and> (\<exists>m. b = JObj [(utf16 ''ok'', JBool False), (utf16 ''error'', JStr m)])))
     \<and> (get_prop b (utf16 ''ok'') = JBool True \<longleftrightarrow> st = 200)
     \<and> (get_prop b (utf16 ''text'') = JUndefined \<or> get_prop b (utf16 ''error'') = JUndefined)"
  using C8_exactly_one_response [of "unreachable dns_failure" "get_request sample_url" fresh_res]
  by (simp add: fresh_res_def)

subsection \<open>Determinism\<close>

lemma fileURL_of_cong:
  "query req1 (utf16 ''fileURL'') = query req2 (utf16 ''fileURL'') \<Longrightarrow> body req1 = body req2
   \<Longrightarrow> fileURL_of req1 = fileURL_of req2"
  by (simp add: fileURL_of_def Let_def)

lemma extractedText_cong:
  "not_a_function e1 = not_a_function e2 \<Longrightarrow> extractedText e1 data = extractedText e2 data"
  by (simp add: extractedText_def Let_def cong: jsval.case_cong)

text \<open>
  Claim C9. The handler is deterministic: two invocations whose requests agree on the
  fileURL query parameter and on the body, and whose collaborators behave alike (the same
  fetch result for the selected location, the same parse result for the same bytes, the
  same engine), make the same calls and send the same response, so the same text.
\<close>

theorem C9_same_inputs_same_response:
  assumes "query req1 (utf16 ''fileURL'') = query req2 (utf16 ''fileURL'')"
    and "body req1 = body req2"
    and "\<forall>u. fileURL_of req1 = Inr u \<longrightarrow> fetch e1 u = fetch e2 u"
    and "\<forall>b. pdfParse e1 b = pdfParse e2 b"
    and "not_a_function e1 = not_a_function e2"
  shows "handler e1 req1 res = handler e2 req2 res"
proof -
  have sel: "fileURL_of req1 = fileURL_of req2"
    using assms(1,2) by (rule fileURL_of_cong)
  have same_text: "extractedText e1 data = extractedText e2 data" for data
    using assms(5) by (rule extractedText_cong)
  show ?thesis
  proof (cases "fileURL_of req1")
    case (Inl err)
    with sel have "fileURL_of req2 = Inl err" by simp
    with Inl show ?thesis by (simp add: handler_body_throws)
  next
    case (Inr u)
    with sel have sel2: "fileURL_of req2 = Inr u" by simp
    from Inr assms(3) have f: "fetch e1 u = fetch e2 u" by simp
    show ?thesis
      by (simp add: handler_def Inr sel2 f assms(4) same_text Let_def
               cong: sum.case_cong if_cong)
  qed
qed

theorem C9_same_inputs_same_response_witness:
  "handler (serving pdf_response (Inr (JObj [(utf16 ''text'', JStr (utf16 ''Hello World''))])))
     (get_request sample_url) fresh_res
   = handler (only_sample pdf_response (Inr (JObj [(utf16 ''text'', JStr (utf16 ''Hello World''))])))
       tagged_request fresh_res
   \<and> get_request sample_url \<noteq> tagged_request"
proof -
  let ?p = "Inr (JObj [(utf16 ''text'', JStr (utf16 ''Hello World''))]) :: js_error + jsval"
  have 1: "query (get_request sample_url) (utf16 ''fileURL'')
             = query tagged_request (utf16 ''fileURL'')"
    by (simp add: get_request_def tagged_request_def)
  have 2: "body (get_request sample_url) = body tagged_request"
    by (simp add: get_request_def tagged_request_def)
  have 3: "\<forall>u. fileURL_of (get_request sample_url) = Inr u
             \<longrightarrow> fetch (serving pdf_response ?p) u = fetch (only_sample pdf_response ?p) u"
    by (simp add: sample_selected serving_def only_sample_def)
  have 4: "\<forall>b. pdfParse (serving pdf_response ?p) b = pdfParse (only_sample pdf_response ?p) b"
    by (simp add: serving_def only_sample_def)
  have 5: "not_a_function (serving pdf_response ?p) = not_a_function (only_sample pdf_response ?p)"
    by (simp add: serving_def only_sample_def)
  have 6: "req_method (get_request sample_url) \<noteq> req_method tagged_request"
    by (simp add: get_request_def tagged_request_def utf16_def)
  from 6 have "get_request sample_url \<noteq> tagged_request" by auto
  with C9_same_inputs_same_response [OF 1 2 3 4 5, of fresh_res] show ?thesis by simp
qed

end
